theory Spec2Isabelle
  imports Main "HOL-Library.Multiset"
begin

section \<open>Resolution strategies (strategy.py)\<close>

text \<open>
  The two concrete subclasses of \<open>AbstractStrategy\<close>. Neither has any field, so an
  instance is identified by its class.
\<close>

datatype strategy = DefaultStrategy | EarliestCompatible

text \<open>
  \<open>get_preferred_candidate(self, resolution, candidates, information)\<close>: the default
  strategy returns \<open>len(candidates)\<close>, the earliest-compatible one returns 0.
\<close>

fun get_preferred_candidate ::
  "strategy \<Rightarrow> 'c option \<Rightarrow> 'c list \<Rightarrow> ('r \<times> 'c) list \<Rightarrow> int" where
  "get_preferred_candidate DefaultStrategy resolution candidates information =
     int (length candidates)"
| "get_preferred_candidate EarliestCompatible resolution candidates information = 0"

text \<open>
  \<open>sort_candidates(self, candidates)\<close>: \<open>reversed(candidates)\<close> for the default
  strategy (the elements of the iterator, last to first), the sequence itself otherwise.
\<close>

fun sort_candidates :: "strategy \<Rightarrow> 'c list \<Rightarrow> 'c list" where
  "sort_candidates DefaultStrategy candidates = rev candidates"
| "sort_candidates EarliestCompatible candidates = candidates"

text \<open>
  \<open>strategy_factory(name)\<close>: a one-entry dictionary from names to classes, read with
  \<open>.get(name, DefaultStrategy)\<close>, and the class found is instantiated.
\<close>

definition strategy_table :: "string \<rightharpoonup> strategy" where
  "strategy_table = [''earliest-compatible'' \<mapsto> EarliestCompatible]"

definition strategy_factory :: "string \<Rightarrow> strategy" where
  "strategy_factory name =
     (case strategy_table name of None \<Rightarrow> DefaultStrategy | Some f \<Rightarrow> f)"

section \<open>Python string operations\<close>

text \<open>
  The \<open>str\<close> methods the wheel module calls, on \<open>string\<close> (a list of characters).
\<close>

definition startswith :: "string \<Rightarrow> string \<Rightarrow> bool" where
  "startswith s p = (take (length p) s = p)"

definition endswith :: "string \<Rightarrow> string \<Rightarrow> bool" where
  "endswith s p = (length p \<le> length s \<and> drop (length s - length p) s = p)"

text \<open>\<open>s.replace(a, b)\<close> for one-character \<open>a\<close> and \<open>b\<close>.\<close>

definition replace_char :: "char \<Rightarrow> char \<Rightarrow> string \<Rightarrow> string" where
  "replace_char a b s = map (\<lambda>c. if c = a then b else c) s"

text \<open>\<open>s.lstrip(chars)\<close> and \<open>s.rstrip(chars)\<close>.\<close>

definition lstrip :: "string \<Rightarrow> string \<Rightarrow> string" where
  "lstrip chars s = dropWhile (\<lambda>c. c \<in> set chars) s"

definition rstrip :: "string \<Rightarrow> string \<Rightarrow> string" where
  "rstrip chars s = rev (dropWhile (\<lambda>c. c \<in> set chars) (rev s))"

text \<open>
  \<open>s.split(sep)\<close> for a one-character separator: the pieces between the separators,
  empty pieces included, so the result is never empty.
\<close>

fun split_char :: "char \<Rightarrow> string \<Rightarrow> string list" where
  "split_char sep [] = [[]]"
| "split_char sep (c # cs) =
     (if c = sep then [] # split_char sep cs
      else (case split_char sep cs of
              [] \<Rightarrow> [[c]]
            | p # ps \<Rightarrow> (c # p) # ps))"

text \<open>\<open>s.lower()\<close> on ASCII letters.\<close>

definition lower_char :: "char \<Rightarrow> char" where
  "lower_char c =
     (let n = of_char c :: nat in if 65 \<le> n \<and> n \<le> 90 then char_of (n + 32) else c)"

definition lower :: "string \<Rightarrow> string" where
  "lower s = map lower_char s"

section \<open>Regular expressions with backtracking (the \<open>re\<close> module)\<close>

text \<open>
  The fragment of Python's regular expressions that the wheel module's patterns use:
  character atoms (\<open>.\<close>, which does not match a newline, \<open>\d\<close>, a literal), the
  lazy repetitions \<open>x+?\<close> and \<open>x*?\<close> of an atom, sequence, alternation, the greedy
  option \<open>r?\<close>, named groups, \<open>^\<close> and \<open>$\<close>. Unnamed groups only bracket: their
  captures are never read.
\<close>

datatype cclass = AnyChar | Digit | Lit char

fun cc_match :: "cclass \<Rightarrow> char \<Rightarrow> bool" where
  "cc_match AnyChar c = (c \<noteq> CHR 0x0A)"
| "cc_match Digit c = (c \<in> set ''0123456789'')"
| "cc_match (Lit a) c = (c = a)"

datatype regex =
    Eps
  | Atom cclass
  | Lazy_Plus cclass
  | Lazy_Star cclass
  | Seq regex regex
  | Alt regex regex
  | Opt regex
  | Group string regex
  | Bos
  | Eos

type_synonym groups = "string \<rightharpoonup> string"

text \<open>
  The matcher tries the alternatives in the order of Python's backtracking engine and
  returns the first complete match. A state is the rest of the subject and the groups
  captured so far; \<open>k\<close> is the continuation, what has to match after this expression.
  A lazy repetition first tries to stop, then takes one more character.
\<close>

fun lazy_star :: "cclass \<Rightarrow> (string \<Rightarrow> 'a option) \<Rightarrow> string \<Rightarrow> 'a option" where
  "lazy_star c k [] = k []"
| "lazy_star c k (x # xs) =
     (case k (x # xs) of
        Some r \<Rightarrow> Some r
      | None \<Rightarrow> if cc_match c x then lazy_star c k xs else None)"

fun rmatch ::
  "regex \<Rightarrow> string \<Rightarrow> (string \<times> groups \<Rightarrow> 'a option) \<Rightarrow> string \<times> groups \<Rightarrow> 'a option" where
  "rmatch Eps s k st = k st"
| "rmatch (Atom c) s k (r, g) =
     (case r of [] \<Rightarrow> None | x # xs \<Rightarrow> if cc_match c x then k (xs, g) else None)"
| "rmatch (Lazy_Star c) s k (r, g) = lazy_star c (\<lambda>r'. k (r', g)) r"
| "rmatch (Lazy_Plus c) s k (r, g) =
     (case r of
        [] \<Rightarrow> None
      | x # xs \<Rightarrow> if cc_match c x then lazy_star c (\<lambda>r'. k (r', g)) xs else None)"
| "rmatch (Seq a b) s k st = rmatch a s (\<lambda>st'. rmatch b s k st') st"
| "rmatch (Alt a b) s k st =
     (case rmatch a s k st of Some m \<Rightarrow> Some m | None \<Rightarrow> rmatch b s k st)"
| "rmatch (Opt a) s k st =
     (case rmatch a s k st of Some m \<Rightarrow> Some m | None \<Rightarrow> k st)"
| "rmatch (Group n a) s k (r, g) =
     rmatch a s (\<lambda>(r', g'). k (r', g'(n \<mapsto> take (length r - length r') r))) (r, g)"
| "rmatch Bos s k (r, g) = (if length r = length s then k (r, g) else None)"
| "rmatch Eos s k (r, g) = (if r = [] \<or> r = [CHR 0x0A] then k (r, g) else None)"

text \<open>\<open>pattern.match(s)\<close>: a match starting at the first character, or \<open>None\<close>.\<close>

definition re_match :: "regex \<Rightarrow> string \<Rightarrow> groups option" where
  "re_match p s = rmatch p s (\<lambda>(r, g). Some g) (s, Map.empty)"

text \<open>A sequence of expressions, and a literal string as the sequence of its characters.\<close>

fun seqs :: "regex list \<Rightarrow> regex" where
  "seqs [] = Eps"
| "seqs (r # rs) = Seq r (seqs rs)"

definition lit :: "string \<Rightarrow> regex" where
  "lit cs = seqs (map (\<lambda>c. Atom (Lit c)) cs)"

section \<open>Archive identity (class \<open>Wheel\<close>)\<close>

datatype error =
    AttributeError | IndexError | KeyError | ValueError | IOError | AssertionError

text \<open>
  \<open>wheel_file_re\<close>, compiled with \<open>re.VERBOSE\<close> (white space in the pattern is
  ignored):
  \<^verbatim>\<open>^(?P<namever>(?P<name>.+?)(-(?P<ver>\d.+?))?)
   ((-(?P<build>\d.*?))?-(?P<pyver>.+?)-(?P<abi>.+?)-(?P<plat>.+?)\.whl|\.dist-info)$\<close>
\<close>

definition wheel_file_re :: regex where
  "wheel_file_re =
     seqs [Bos,
       Group ''namever'' (seqs [
         Group ''name'' (Lazy_Plus AnyChar),
         Opt (seqs [lit ''-'', Group ''ver'' (seqs [Atom Digit, Lazy_Plus AnyChar])])]),
       Alt (seqs [
              Opt (seqs [lit ''-'', Group ''build'' (seqs [Atom Digit, Lazy_Star AnyChar])]),
              lit ''-'', Group ''pyver'' (Lazy_Plus AnyChar),
              lit ''-'', Group ''abi'' (Lazy_Plus AnyChar),
              lit ''-'', Group ''plat'' (Lazy_Plus AnyChar),
              lit ''.whl''])
           (lit ''.dist-info''),
       Eos]"

type_synonym tag = "string \<times> string \<times> string"

record wheel =
  filename :: string
  name :: string
  version :: string
  pyversions :: "string list"
  abis :: "string list"
  plats :: "string list"
  file_tags :: "tag set"

text \<open>
  \<open>Wheel.__init__(self, filename)\<close>. \<open>wheel_info\<close> is \<open>None\<close> when the pattern does
  not match, and \<open>group\<close> returns \<open>None\<close> for a group that took no part in the match;
  calling a method on \<open>None\<close> raises \<open>AttributeError\<close>. The statements run in the
  order of the source.
\<close>

definition Wheel_init :: "string \<Rightarrow> error + wheel" where
  "Wheel_init fname =
     (case re_match wheel_file_re fname of
        None \<Rightarrow> Inl AttributeError
      | Some wheel_info \<Rightarrow>
     (case wheel_info ''name'' of
        None \<Rightarrow> Inl AttributeError
      | Some n \<Rightarrow>
     (case wheel_info ''ver'' of
        None \<Rightarrow> Inl AttributeError
      | Some v \<Rightarrow>
     (case wheel_info ''pyver'' of
        None \<Rightarrow> Inl AttributeError
      | Some py \<Rightarrow>
     (case wheel_info ''abi'' of
        None \<Rightarrow> Inl AttributeError
      | Some ab \<Rightarrow>
     (case wheel_info ''plat'' of
        None \<Rightarrow> Inl AttributeError
      | Some pl \<Rightarrow>
        (let pys = split_char (CHR ''.'') py;
             as = split_char (CHR ''.'') ab;
             ps = split_char (CHR ''.'') pl
         in Inr \<lparr> filename = fname,
                  name = replace_char (CHR ''_'') (CHR ''-'') n,
                  version = replace_char (CHR ''_'') (CHR ''-'') v,
                  pyversions = pys, abis = as, plats = ps,
                  file_tags = set (concat (map (\<lambda>x. concat (map (\<lambda>y. map (\<lambda>z. (x, y, z)) ps) as)) pys))
                \<rparr>)))))))"

text \<open>
  \<open>tags.index(c)\<close>, the first position of \<open>c\<close>; it is only called under the guard
  \<open>c in tags\<close>.
\<close>

definition list_index :: "'a list \<Rightarrow> 'a \<Rightarrow> nat" where
  "list_index xs x = length (takeWhile (\<lambda>y. y \<noteq> x) xs)"

text \<open>
  \<open>Wheel.support_index_min(self, tags)\<close> and \<open>Wheel.supported(self, tags)\<close>. With
  \<open>tags = None\<close> the list is the module global \<open>pep425tags.supported_tags\<close>, the
  first argument here. The comprehension runs over a set, in no specified order; only
  whether it is empty and its minimum are used, so the indexes are modelled as a set.
\<close>

definition support_index_min :: "tag list \<Rightarrow> wheel \<Rightarrow> tag list option \<Rightarrow> nat option" where
  "support_index_min supported_tags w tags_arg =
     (let tags = (case tags_arg of None \<Rightarrow> supported_tags | Some t \<Rightarrow> t);
          indexes = list_index tags ` {c \<in> file_tags w. c \<in> set tags}
      in if indexes \<noteq> {} then Some (Min indexes) else None)"

definition supported :: "tag list \<Rightarrow> wheel \<Rightarrow> tag list option \<Rightarrow> bool" where
  "supported supported_tags w tags_arg =
     (let tags = (case tags_arg of None \<Rightarrow> supported_tags | Some t \<Rightarrow> t)
      in set tags \<inter> file_tags w \<noteq> {})"

section \<open>Paths (\<open>os.path\<close> on a POSIX platform)\<close>

text \<open>
  \<open>os.path.join(a, b)\<close>: an absolute \<open>b\<close> replaces \<open>a\<close>; otherwise \<open>b\<close> is
  appended, after a separator unless \<open>a\<close> is empty or ends with one.
\<close>

definition path_join :: "string \<Rightarrow> string \<Rightarrow> string" where
  "path_join a b =
     (if startswith b ''/'' then b
      else if a = [] \<or> endswith a ''/'' then a @ b
      else a @ ''/'' @ b)"

text \<open>
  \<open>os.path.split(p)\<close>: the tail is what follows the last separator; the head is the
  rest, without its trailing separators unless it consists of separators only.
\<close>

definition path_split :: "string \<Rightarrow> string \<times> string" where
  "path_split p =
     (let i = length p - length (takeWhile (\<lambda>c. c \<noteq> CHR ''/'') (rev p));
          head = take i p;
          tail = drop i p
      in (if head \<noteq> [] \<and> head \<noteq> replicate (length head) (CHR ''/'')
          then rstrip ''/'' head else head, tail))"

section \<open>Uninstallation paths\<close>

text \<open>
  The path of the compiled file beside a \<open>.py\<close> file: \<open>os.path.split\<close>, the file
  name without its last three characters, \<open>.pyc\<close> appended, \<open>os.path.join\<close>.
\<close>

definition pyc_path :: "string \<Rightarrow> string" where
  "pyc_path path =
     (let (dn, fn) = path_split path;
          base = take (length fn - 3) fn
      in path_join dn (base @ ''.pyc''))"

text \<open>
  The generator \<open>uninstallation_paths(dist)\<close> before it is decorated. \<open>location\<close> is
  \<open>dist.location\<close> and \<open>rows\<close> are the rows that \<open>csv.reader\<close> produces from the
  lines of \<open>RECORD\<close>. A generator is modelled by the list of the values it yields and
  the exception that ends it, if any: \<open>row[0]\<close> raises \<open>IndexError\<close> on an empty row
  (which \<open>csv.reader\<close> produces for an empty line).
\<close>

fun uninstallation_paths_fn :: "string \<Rightarrow> string list list \<Rightarrow> string list \<times> error option" where
  "uninstallation_paths_fn location [] = ([], None)"
| "uninstallation_paths_fn location (row # rows) =
     (case row of
        [] \<Rightarrow> ([], Some IndexError)
      | r0 # _ \<Rightarrow>
          (let path = path_join location r0;
               yielded = (if endswith path ''.py'' then [path, pyc_path path] else [path]);
               (rest, e) = uninstallation_paths_fn location rows
           in (yielded @ rest, e)))"

text \<open>
  The decorator \<open>_unique\<close>: the loop of the inner function \<open>unique\<close> over the items
  of the wrapped generator, with the set \<open>seen\<close>; an exception of the wrapped generator
  ends the decorated one after the items before it.
\<close>

fun unique_loop :: "'a set \<Rightarrow> 'a list \<Rightarrow> 'a list" where
  "unique_loop seen [] = []"
| "unique_loop seen (item # items) =
     (if item \<notin> seen then item # unique_loop (insert item seen) items
      else unique_loop seen items)"

definition unique :: "'a list \<times> error option \<Rightarrow> 'a list \<times> error option" where
  "unique gen = (unique_loop {} (fst gen), snd gen)"

definition uninstallation_paths :: "string \<Rightarrow> string list list \<Rightarrow> string list \<times> error option" where
  "uninstallation_paths location rows = unique (uninstallation_paths_fn location rows)"

section \<open>Building wheels (class \<open>WheelBuilder\<close>)\<close>






section \<open>Content hashing (\<open>rehash\<close>)\<close>

text \<open>
  Files are byte strings, and the files that can be opened are a partial map from
  paths to their contents; opening a path outside its domain raises \<open>IOError\<close>.
\<close>

type_synonym fs = "string \<rightharpoonup> string"

text \<open>
  \<open>f.read(blocksize)\<close> on the unread rest of a file: the whole rest for a negative
  size, at most \<open>blocksize\<close> bytes otherwise.
\<close>

definition file_read :: "int \<Rightarrow> string \<Rightarrow> string" where
  "file_read blocksize rest = (if blocksize < 0 then rest else take (nat blocksize) rest)"

text \<open>
  The \<open>while block:\<close> loop of \<open>rehash\<close>. A hash object is modelled by the bytes fed
  to it so far, following the contract of \<open>hashlib\<close>: repeated calls of \<open>update\<close> are
  equivalent to one call with the concatenation of the arguments.
\<close>

function rehash_loop :: "int \<Rightarrow> string \<Rightarrow> nat \<times> string \<Rightarrow> nat \<times> string" where
  "rehash_loop blocksize rest (len, h) =
     (let block = file_read blocksize rest
      in if block \<noteq> [] then
           rehash_loop blocksize (drop (length block) rest) (len + length block, h @ block)
         else (len, h))"
  by pat_completeness auto
termination
  by (relation "measure (\<lambda>(blocksize, rest, acc). length rest)")
     (auto simp: file_read_def split: if_splits)

declare rehash_loop.simps [simp del]

text \<open>
  \<open>base64.urlsafe_b64encode\<close>: three bytes become four characters of the alphabet
  that ends in \<open>-\<close> and \<open>_\<close>, and a last group of one or two bytes is padded with
  \<open>=\<close>.
\<close>

definition b64_char :: "nat \<Rightarrow> char" where
  "b64_char n =
     ''ABCDEFGHIJKLMNOPQRSTUVWXYZabcdefghijklmnopqrstuvwxyz0123456789-_'' ! (n mod 64)"

fun urlsafe_b64encode :: "string \<Rightarrow> string" where
  "urlsafe_b64encode [] = []"
| "urlsafe_b64encode [a] =
     (let n = of_char a * 65536
      in [b64_char (n div 262144), b64_char (n div 4096), CHR ''='', CHR ''=''])"
| "urlsafe_b64encode [a, b] =
     (let n = of_char a * 65536 + of_char b * 256
      in [b64_char (n div 262144), b64_char (n div 4096), b64_char (n div 64), CHR ''=''])"
| "urlsafe_b64encode (a # b # c # rest) =
     (let n = of_char a * 65536 + of_char b * 256 + of_char c
      in [b64_char (n div 262144), b64_char (n div 4096), b64_char (n div 64), b64_char n]
         @ urlsafe_b64encode rest)"

text \<open>
  \<open>rehash(path, algo, blocksize)\<close>. \<open>hashlib_new algo\<close> is the digest function of
  the algorithm named \<open>algo\<close>, or \<open>None\<close> when \<open>hashlib.new\<close> raises \<open>ValueError\<close>
  for an unknown name. The defaults of the source are \<open>algo = 'sha256'\<close> and
  \<open>blocksize = 1 << 20\<close>.
\<close>

definition rehash ::
  "(string \<Rightarrow> (string \<Rightarrow> string) option) \<Rightarrow> fs \<Rightarrow> string \<Rightarrow> string \<Rightarrow> int \<Rightarrow>
   error + string \<times> nat" where
  "rehash hashlib_new files path algo blocksize =
     (case hashlib_new algo of
        None \<Rightarrow> Inl ValueError
      | Some digest_of \<Rightarrow>
     (case files path of
        None \<Rightarrow> Inl IOError
      | Some content \<Rightarrow>
          (let (len, h) = rehash_loop blocksize content (0, []);
               digest = ''sha256='' @ rstrip ''='' (urlsafe_b64encode (digest_of h))
           in Inr (digest, len))))"

section \<open>Installation (\<open>move_wheel_files\<close>)\<close>

subsection \<open>Statements that may raise\<close>

text \<open>
  A statement that changes the state \<open>'s\<close> and may raise returns the state it leaves
  behind and the exception, if any. \<open>foreach\<close> is a \<open>for\<close> loop: the first exception
  ends it.
\<close>

fun foreach :: "'a list \<Rightarrow> ('a \<Rightarrow> 's \<Rightarrow> 's \<times> error option) \<Rightarrow> 's \<Rightarrow> 's \<times> error option" where
  "foreach [] body s = (s, None)"
| "foreach (x # xs) body s =
     (case body x s of
        (s', None) \<Rightarrow> foreach xs body s'
      | (s', Some e) \<Rightarrow> (s', Some e))"

subsection \<open>Dictionaries\<close>

text \<open>
  A \<open>dict\<close> whose keys are iterated is an association list with distinct keys:
  \<open>d[k] = v\<close>, \<open>del d[k]\<close> (also the removal done by \<open>d.pop(k, default)\<close>), and
  \<open>map_of d k\<close> for \<open>d.get(k)\<close>.
\<close>

fun dict_set :: "('k \<times> 'v) list \<Rightarrow> 'k \<Rightarrow> 'v \<Rightarrow> ('k \<times> 'v) list" where
  "dict_set [] k v = [(k, v)]"
| "dict_set ((k', v') # d) k v =
     (if k' = k then (k, v) # d else (k', v') # dict_set d k v)"

definition dict_del :: "('k \<times> 'v) list \<Rightarrow> 'k \<Rightarrow> ('k \<times> 'v) list" where
  "dict_del d k = filter (\<lambda>kv. fst kv \<noteq> k) d"

subsection \<open>The unpacked wheel and \<open>os.walk\<close>\<close>

text \<open>
  The directory \<open>wheeldir\<close> is a tree: a file with its content, or a directory with its
  entries in the order \<open>os.listdir\<close> returns them. Files moved out of it are stored in
  the map of files under their destination paths.
\<close>

datatype node = File string | Dir "(string \<times> node) list"

text \<open>
  \<open>os.walk(top)\<close>, top down: for each directory its path, the names of its
  subdirectories and its other entries (here with their contents, which \<open>shutil.move\<close>
  takes along), then the walks of the subdirectories in the same order.
\<close>

fun walk :: "string \<Rightarrow> (string \<times> node) list \<Rightarrow> (string \<times> string list \<times> (string \<times> string) list) list"
where
  "walk topdir entries =
     (topdir,
      concat (map (\<lambda>(n, e). case e of Dir _ \<Rightarrow> [n] | File _ \<Rightarrow> []) entries),
      concat (map (\<lambda>(n, e). case e of Dir _ \<Rightarrow> [] | File c \<Rightarrow> [(n, c)]) entries))
     # concat (map (\<lambda>(n, e). case e of Dir es \<Rightarrow> walk (path_join topdir n) es | File _ \<Rightarrow> [])
                   entries)"

definition walk_node :: "string \<Rightarrow> node \<Rightarrow> (string \<times> string list \<times> (string \<times> string) list) list"
where
  "walk_node topdir nd = (case nd of Dir es \<Rightarrow> walk topdir es | File _ \<Rightarrow> [])"

subsection \<open>The environment and the state of an installation\<close>

text \<open>
  What \<open>move_wheel_files\<close> takes from outside the module:
  \<^item> \<open>scheme\<close>, the dictionary returned by \<open>distutils_scheme(name, user, home, root)\<close>;
  \<^item> \<open>make_path_relative\<close> from \<open>pip.util\<close>;
  \<^item> \<open>sys.executable\<close> (encoded), \<open>os.linesep\<close> and \<open>sys.version\<close>;
  \<^item> \<open>hashlib.new\<close>, as for \<open>rehash\<close>;
  \<^item> \<open>csv.reader\<close>, from the content of a file to its rows, and the line that
    \<open>csv.writer.writerow\<close> writes for a row, or the exception it raises;
  \<^item> \<open>ScriptMaker(None, target_dir).make(spec, options)\<close>: the files it writes for
    a specification, with their contents (the flag is the option \<open>gui\<close>);
  \<^item> \<open>ConfigParser\<close>: the items of a section of a file, \<open>None\<close> without that section.
\<close>

record env =
  scheme :: "string \<rightharpoonup> string"
  make_path_relative :: "string \<Rightarrow> string \<Rightarrow> string"
  sys_executable :: string
  os_linesep :: string
  sys_version :: string
  hashlib_new :: "string \<Rightarrow> (string \<Rightarrow> string) option"
  csv_reader :: "string \<Rightarrow> string list list"
  csv_writerow :: "string list \<Rightarrow> error + string"
  maker_make :: "string \<Rightarrow> string \<Rightarrow> bool \<Rightarrow> (string \<times> string) list"
  config_items :: "string \<Rightarrow> string \<Rightarrow> (string \<times> string) list option"

text \<open>
  The files outside \<open>wheeldir\<close> and the local variables of \<open>move_wheel_files\<close> that
  its nested functions change.
\<close>

record install_state =
  files :: fs
  installed :: "(string \<times> string) list"
  changed :: "string set"
  generated :: "string list"
  info_dir :: "string list"
  data_dirs :: "string list"

definition then_do ::
  "'s \<times> error option \<Rightarrow> ('s \<Rightarrow> 's \<times> error option) \<Rightarrow> 's \<times> error option" where
  "then_do r f = (case r of (s, None) \<Rightarrow> f s | (s, Some e) \<Rightarrow> (s, Some e))"

subsection \<open>\<open>fix_script\<close>\<close>

text \<open>\<open>f.readline()\<close> on a file opened in binary mode: up to and with the first newline.\<close>

definition readline :: "string \<Rightarrow> string" where
  "readline content =
     (let l = takeWhile (\<lambda>c. c \<noteq> CHR 0x0A) content
      in if length l < length content then l @ [CHR 0x0A] else l)"

text \<open>
  \<open>fix_script(path)\<close>: nothing (a false result) when \<open>path\<close> is not a file or its
  first line does not start with \<open>#!python\<close>; otherwise the first line is replaced
  and the result is \<open>True\<close>.
\<close>

definition fix_script :: "env \<Rightarrow> string \<Rightarrow> fs \<Rightarrow> fs \<times> bool" where
  "fix_script E path fl =
     (case fl path of
        None \<Rightarrow> (fl, False)
      | Some script \<Rightarrow>
          (let firstline = readline script
           in if \<not> startswith firstline ''#!python'' then (fl, False)
              else (let exename = sys_executable E;
                        firstline' = ''#!'' @ exename @ os_linesep E;
                        rest = drop (length firstline) script
                    in (fl(path \<mapsto> firstline' @ rest), True))))"

subsection \<open>\<open>record_installed\<close> and \<open>clobber\<close>\<close>

definition os_sep :: char where
  "os_sep = CHR ''/''"

definition normpath :: "env \<Rightarrow> string \<Rightarrow> string \<Rightarrow> string" where
  "normpath E src p = replace_char os_sep (CHR ''/'') (make_path_relative E src p)"

definition record_installed ::
  "env \<Rightarrow> string \<Rightarrow> string \<Rightarrow> string \<Rightarrow> string \<Rightarrow> bool \<Rightarrow> install_state \<Rightarrow> install_state" where
  "record_installed E wheeldir lib_dir srcfile destfile modified st =
     (let oldpath = normpath E srcfile wheeldir;
          newpath = normpath E destfile lib_dir;
          st' = st\<lparr>installed := dict_set (installed st) oldpath newpath\<rparr>
      in if modified then st'\<lparr>changed := insert destfile (changed st')\<rparr> else st')"

text \<open>
  The body of \<open>for s in subdirs\<close> in \<open>clobber\<close>. Creating directories leaves the
  files as they are and is not modelled.
\<close>

definition clobber_subdir ::
  "string \<Rightarrow> string \<Rightarrow> bool \<Rightarrow> string \<Rightarrow> string \<Rightarrow> install_state \<Rightarrow>
   install_state \<times> error option" where
  "clobber_subdir project_name dest is_base basedir s st =
     (let destsubdir = path_join (path_join dest basedir) s
      in if is_base \<and> basedir = [] \<and> endswith destsubdir ''.data'' then
           (st\<lparr>data_dirs := data_dirs st @ [s]\<rparr>, None)
         else if is_base \<and> endswith s ''.dist-info''
                 \<and> startswith (lower s) (lower (replace_char (CHR ''-'') (CHR ''_'') project_name))
         then (if info_dir st \<noteq> [] then (st, Some AssertionError)
               else (st\<lparr>info_dir := info_dir st @ [destsubdir]\<rparr>, None))
         else (st, None))"

text \<open>The body of \<open>for f in files\<close> in \<open>clobber\<close>.\<close>

definition clobber_file ::
  "env \<Rightarrow> string \<Rightarrow> string \<Rightarrow> string \<Rightarrow> string \<Rightarrow> string \<Rightarrow>
   (string \<Rightarrow> fs \<Rightarrow> fs \<times> bool) option \<Rightarrow> (string \<Rightarrow> bool) option \<Rightarrow>
   string \<times> string \<Rightarrow> install_state \<Rightarrow> install_state \<times> error option" where
  "clobber_file E wheeldir lib_dir dir dest basedir fixer filter_fn fc st =
     (let f = fst fc; content = snd fc
      in if (case filter_fn of None \<Rightarrow> False | Some p \<Rightarrow> p f) then (st, None)
         else (let srcfile = path_join dir f;
                   destfile = path_join (path_join dest basedir) f;
                   moved = (files st)(destfile \<mapsto> content);
                   fixed = (case fixer of None \<Rightarrow> (moved, False) | Some fx \<Rightarrow> fx destfile moved)
               in (record_installed E wheeldir lib_dir srcfile destfile (snd fixed)
                     (st\<lparr>files := fst fixed\<rparr>), None)))"

text \<open>
  \<open>clobber(source, dest, is_base, fixer, filter)\<close>, over the tree \<open>nd\<close> found at
  \<open>source\<close>. \<open>basedir.split(os.path.sep, 1)[0]\<close> is \<open>basedir\<close> up to its first
  separator.
\<close>

definition clobber_dir ::
  "env \<Rightarrow> string \<Rightarrow> string \<Rightarrow> string \<Rightarrow> string \<Rightarrow> string \<Rightarrow> bool \<Rightarrow>
   (string \<Rightarrow> fs \<Rightarrow> fs \<times> bool) option \<Rightarrow> (string \<Rightarrow> bool) option \<Rightarrow>
   string \<times> string list \<times> (string \<times> string) list \<Rightarrow> install_state \<Rightarrow>
   install_state \<times> error option" where
  "clobber_dir E project_name wheeldir lib_dir source dest is_base fixer filter_fn w st =
     (let dir = fst w; subdirs = fst (snd w); fls = snd (snd w);
          basedir = lstrip [os_sep] (drop (length source) dir)
      in if is_base \<and> endswith (takeWhile (\<lambda>c. c \<noteq> os_sep) basedir) ''.data'' then (st, None)
         else then_do (foreach subdirs (clobber_subdir project_name dest is_base basedir) st)
                (foreach fls (clobber_file E wheeldir lib_dir dir dest basedir fixer filter_fn)))"

definition clobber ::
  "env \<Rightarrow> string \<Rightarrow> string \<Rightarrow> string \<Rightarrow> string \<Rightarrow> node \<Rightarrow> string \<Rightarrow> bool \<Rightarrow>
   (string \<Rightarrow> fs \<Rightarrow> fs \<times> bool) option \<Rightarrow> (string \<Rightarrow> bool) option \<Rightarrow> install_state \<Rightarrow>
   install_state \<times> error option" where
  "clobber E project_name wheeldir lib_dir source nd dest is_base fixer filter_fn st =
     foreach (walk_node source nd)
       (clobber_dir E project_name wheeldir lib_dir source dest is_base fixer filter_fn) st"

subsection \<open>\<open>root_is_purelib\<close>\<close>

text \<open>
  \<open>dist_info_re\<close>:
  \<^verbatim>\<open>^(?P<namever>(?P<name>.+?)(-(?P<ver>\d.+?))?)\.dist-info$\<close>
\<close>

definition dist_info_re :: regex where
  "dist_info_re =
     seqs [Bos,
       Group ''namever'' (seqs [
         Group ''name'' (Lazy_Plus AnyChar),
         Opt (seqs [lit ''-'', Group ''ver'' (seqs [Atom Digit, Lazy_Plus AnyChar])])]),
       lit ''.dist-info'',
       Eos]"

text \<open>The lines of a file, each with its newline, as iterating over the file gives them.\<close>

function file_lines :: "string \<Rightarrow> string list" where
  "file_lines content =
     (if content = [] then []
      else readline content # file_lines (drop (length (readline content)) content))"
  by pat_completeness auto
termination
  by (relation "measure length") (auto simp: readline_def Let_def split: if_splits)

declare file_lines.simps [simp del]

text \<open>
  \<open>root_is_purelib(name, wheeldir)\<close> over the entries of \<open>wheeldir\<close>. Opening
  \<open>WHEEL\<close> in a matching entry raises \<open>IOError\<close> when there is no such file.
  \<open>rstrip()\<close> removes trailing white space.
\<close>

definition whitespace :: string where
  "whitespace = [CHR '' '', CHR 0x09, CHR 0x0A, CHR 0x0B, CHR 0x0C, CHR 0x0D]"

fun root_is_purelib :: "string \<Rightarrow> (string \<times> node) list \<Rightarrow> error + bool" where
  "root_is_purelib nm [] = Inr False"
| "root_is_purelib nm ((item, nd) # items) =
     (let name_folded = replace_char (CHR ''-'') (CHR ''_'') nm
      in case re_match dist_info_re item of
           None \<Rightarrow> root_is_purelib nm items
         | Some m \<Rightarrow>
             if m ''name'' = Some name_folded then
               (case nd of
                  File _ \<Rightarrow> Inl IOError
                | Dir es \<Rightarrow>
                    (case map_of es ''WHEEL'' of
                       Some (File wheel) \<Rightarrow>
                         if ''root-is-purelib: true''
                              \<in> set (map (\<lambda>line. rstrip whitespace (lower line)) (file_lines wheel))
                         then Inr True
                         else root_is_purelib nm items
                     | _ \<Rightarrow> Inl IOError))
             else root_is_purelib nm items)"

subsection \<open>Entry points\<close>

definition dict_of :: "('k \<times> 'v) list \<Rightarrow> ('k \<times> 'v) list" where
  "dict_of items = fold (\<lambda>kv d. dict_set d (fst kv) (snd kv)) items []"

text \<open>\<open>get_entrypoints(filename)\<close>: the dictionaries \<open>console\<close> and \<open>gui\<close>.\<close>

definition get_entrypoints ::
  "env \<Rightarrow> fs \<Rightarrow> string \<Rightarrow> (string \<times> string) list \<times> (string \<times> string) list" where
  "get_entrypoints E fl fname =
     (case fl fname of
        None \<Rightarrow> ([], [])
      | Some content \<Rightarrow>
          ((case config_items E content ''console_scripts'' of
              None \<Rightarrow> [] | Some items \<Rightarrow> dict_of items),
           (case config_items E content ''gui_scripts'' of
              None \<Rightarrow> [] | Some items \<Rightarrow> dict_of items)))"

text \<open>\<open>is_entrypoint_wrapper(name)\<close>, with the dictionaries it reads.\<close>

definition is_entrypoint_wrapper ::
  "(string \<times> string) list \<Rightarrow> (string \<times> string) list \<Rightarrow> string \<Rightarrow> bool" where
  "is_entrypoint_wrapper console gui nm =
     (let matchname =
            (if endswith (lower nm) ''.exe'' then take (length nm - 4) nm
             else if endswith (lower nm) ''-script.py'' then take (length nm - 10) nm
             else if endswith (lower nm) ''.pya'' then take (length nm - 4) nm
             else nm)
      in matchname \<in> fst ` set console \<or> matchname \<in> fst ` set gui)"

text \<open>
  The body of \<open>for subdir in os.listdir(...)\<close> inside \<open>for datadir in data_dirs\<close>.
  \<open>fixer\<close> is reset for every \<open>subdir\<close>; \<open>filter\<close> only for every \<open>datadir\<close>, so
  it is part of the state of the inner loop.
\<close>

definition data_subdir ::
  "env \<Rightarrow> string \<Rightarrow> string \<Rightarrow> string \<Rightarrow> (string \<times> string) list \<Rightarrow> (string \<times> string) list \<Rightarrow>
   string \<Rightarrow> string \<times> node \<Rightarrow> (string \<Rightarrow> bool) option \<times> install_state \<Rightarrow>
   ((string \<Rightarrow> bool) option \<times> install_state) \<times> error option" where
  "data_subdir E project_name wheeldir lib_dir console gui datadir sn fs =
     (let subdir = fst sn;
          fixer = (if subdir = ''scripts'' then Some (fix_script E) else None);
          filter_fn = (if subdir = ''scripts'' then Some (is_entrypoint_wrapper console gui)
                       else fst fs);
          source = path_join (path_join wheeldir datadir) subdir
      in case scheme E subdir of
           None \<Rightarrow> ((filter_fn, snd fs), Some KeyError)
         | Some dest \<Rightarrow>
             (case clobber E project_name wheeldir lib_dir source (snd sn) dest False
                     fixer filter_fn (snd fs) of
                (st', e) \<Rightarrow> ((filter_fn, st'), e)))"

definition data_dir ::
  "env \<Rightarrow> string \<Rightarrow> string \<Rightarrow> string \<Rightarrow> (string \<times> string) list \<Rightarrow> (string \<times> string) list \<Rightarrow>
   (string \<times> node) list \<Rightarrow> string \<Rightarrow> install_state \<Rightarrow> install_state \<times> error option" where
  "data_dir E project_name wheeldir lib_dir console gui top_entries datadir st =
     (case map_of top_entries datadir of
        Some (Dir es) \<Rightarrow>
          (case foreach es (data_subdir E project_name wheeldir lib_dir console gui datadir)
                  (None, st) of
             ((flt, st'), e) \<Rightarrow> (st', e))
      | _ \<Rightarrow> (st, Some IOError))"

text \<open>
  \<open>generated.extend(maker.make(spec))\<close>, for the maker of the directory
  \<open>scheme['scripts']\<close>: the files are written and their names appended.
\<close>

definition make_script :: "env \<Rightarrow> string \<Rightarrow> bool \<Rightarrow> string \<Rightarrow> install_state \<Rightarrow> install_state" where
  "make_script E scripts_dir gui spec st =
     (let written = maker_make E scripts_dir spec gui
      in st\<lparr>files := fold (\<lambda>pc fl. fl(fst pc \<mapsto> snd pc)) written (files st),
            generated := generated st @ map fst written\<rparr>)"

text \<open>
  Modelled from the spec: \<open>ScriptMaker.make_multiple\<close> of the vendored \<open>distlib\<close> is
  not part of the sources at hand; every specification becomes a launcher of its own,
  in the order given.
\<close>

definition make_multiple :: "env \<Rightarrow> string \<Rightarrow> bool \<Rightarrow> string list \<Rightarrow> install_state \<Rightarrow> install_state" where
  "make_multiple E scripts_dir gui specs st = fold (make_script E scripts_dir gui) specs st"

text \<open>The patterns \<^verbatim>\<open>pip(\d(\.\d)?)?$\<close> and \<^verbatim>\<open>easy_install(-\d\.\d)?$\<close>.\<close>

definition pip_re :: regex where
  "pip_re = seqs [lit ''pip'',
                  Opt (seqs [Atom Digit, Opt (seqs [lit ''.'', Atom Digit])]),
                  Eos]"

definition easy_install_re :: regex where
  "easy_install_re = seqs [lit ''easy_install'',
                           Opt (seqs [lit ''-'', Atom Digit, lit ''.'', Atom Digit]),
                           Eos]"

text \<open>
  The special case for \<open>pip\<close>: \<open>console.pop('pip', None)\<close>, three launchers when the
  value popped is not empty, and the removal of the keys that match the pattern.
\<close>

definition generate_pip ::
  "env \<Rightarrow> string \<Rightarrow> (string \<times> string) list \<times> install_state \<Rightarrow>
   (string \<times> string) list \<times> install_state" where
  "generate_pip E scripts_dir cs =
     (let console = fst cs; st = snd cs
      in case map_of console ''pip'' of
           None \<Rightarrow> (console, st)
         | Some pip_script \<Rightarrow>
             (let console1 = dict_del console ''pip''
              in if pip_script = [] then (console1, st)
                 else (let st1 = make_script E scripts_dir False (''pip = '' @ pip_script) st;
                           st2 = make_script E scripts_dir False
                                   (''pip'' @ take 1 (sys_version E) @ '' = '' @ pip_script) st1;
                           st3 = make_script E scripts_dir False
                                   (''pip'' @ take 3 (sys_version E) @ '' = '' @ pip_script) st2;
                           pip_ep = filter (\<lambda>k. re_match pip_re k \<noteq> None) (map fst console1)
                       in (fold (\<lambda>k c. dict_del c k) pip_ep console1, st3))))"

text \<open>The special case for \<open>easy_install\<close>: two launchers.\<close>

definition generate_easy_install ::
  "env \<Rightarrow> string \<Rightarrow> (string \<times> string) list \<times> install_state \<Rightarrow>
   (string \<times> string) list \<times> install_state" where
  "generate_easy_install E scripts_dir cs =
     (let console = fst cs; st = snd cs
      in case map_of console ''easy_install'' of
           None \<Rightarrow> (console, st)
         | Some easy_install_script \<Rightarrow>
             (let console1 = dict_del console ''easy_install''
              in if easy_install_script = [] then (console1, st)
                 else (let st1 = make_script E scripts_dir False
                                   (''easy_install = '' @ easy_install_script) st;
                           st2 = make_script E scripts_dir False
                                   (''easy_install-'' @ take 3 (sys_version E) @ '' = ''
                                      @ easy_install_script) st1;
                           easy_install_ep =
                             filter (\<lambda>k. re_match easy_install_re k \<noteq> None) (map fst console1)
                       in (fold (\<lambda>k c. dict_del c k) easy_install_ep console1, st2))))"

text \<open>
  The generation of all launchers (the statements from \<open>console.pop('pip', None)\<close> to
  the two calls of \<open>make_multiple\<close>).
\<close>

definition generate_scripts ::
  "env \<Rightarrow> string \<Rightarrow> (string \<times> string) list \<Rightarrow> (string \<times> string) list \<Rightarrow>
   install_state \<Rightarrow> install_state" where
  "generate_scripts E scripts_dir console gui st =
     (let cs1 = generate_pip E scripts_dir (console, st);
          cs2 = generate_easy_install E scripts_dir cs1;
          console' = fst cs2;
          st2 = snd cs2;
          st3 = (if length console' > 0
                 then make_multiple E scripts_dir False
                        (map (\<lambda>kv. fst kv @ '' = '' @ snd kv) console') st2
                 else st2)
      in if length gui > 0
         then make_multiple E scripts_dir True (map (\<lambda>kv. fst kv @ '' = '' @ snd kv) gui) st3
         else st3)"

subsection \<open>Rewriting \<open>RECORD\<close>\<close>

text \<open>\<open>str(n)\<close> for a length, as \<open>csv.writer\<close> writes a number.\<close>

function string_of_nat :: "nat \<Rightarrow> string" where
  "string_of_nat n =
     (if n < 10 then [char_of (48 + n)]
      else string_of_nat (n div 10) @ [char_of (48 + n mod 10)])"
  by pat_completeness auto
termination
  by (relation "measure id") auto

declare string_of_nat.simps [simp del]

text \<open>
  \<open>writer.writerow(row)\<close> on the file \<open>temp_record\<close>, which is open for writing:
  the line is appended to it.
\<close>

definition writerow :: "env \<Rightarrow> string \<Rightarrow> string list \<Rightarrow> install_state \<Rightarrow> install_state \<times> error option" where
  "writerow E temp_record row st =
     (case csv_writerow E row of
        Inl e \<Rightarrow> (st, Some e)
      | Inr line \<Rightarrow>
          (st\<lparr>files := (files st)(temp_record \<mapsto>
                   (case files st temp_record of None \<Rightarrow> [] | Some written \<Rightarrow> written) @ line)\<rparr>,
           None))"

text \<open>
  The body of \<open>for row in reader\<close>. \<open>row[0]\<close> raises \<open>IndexError\<close> on an empty row,
  and so does the assignment to \<open>row[1], row[2]\<close> on a row with fewer than three
  fields. \<open>rehash\<close> is called with its default arguments.
\<close>

definition rewrite_row :: "env \<Rightarrow> string \<Rightarrow> string list \<Rightarrow> install_state \<Rightarrow> install_state \<times> error option" where
  "rewrite_row E temp_record row st =
     (case row of
        [] \<Rightarrow> (st, Some IndexError)
      | r0 # cols \<Rightarrow>
          (let row0 = (case map_of (installed st) r0 of None \<Rightarrow> r0 | Some newpath \<Rightarrow> newpath);
               st1 = st\<lparr>installed := dict_del (installed st) r0\<rparr>
           in if row0 \<in> changed st1 then
                (case rehash (hashlib_new E) (files st1) row0 ''sha256'' 1048576 of
                   Inl e \<Rightarrow> (st1, Some e)
                 | Inr hl \<Rightarrow>
                     (case cols of
                        r1 # r2 # others \<Rightarrow>
                          writerow E temp_record
                            (row0 # fst hl # string_of_nat (snd hl) # others) st1
                      | _ \<Rightarrow> (st1, Some IndexError)))
              else writerow E temp_record (row0 # cols) st1))"

text \<open>The body of \<open>for f in generated\<close>.\<close>

definition rewrite_generated :: "env \<Rightarrow> string \<Rightarrow> string \<Rightarrow> install_state \<Rightarrow> install_state \<times> error option" where
  "rewrite_generated E temp_record f st =
     (case rehash (hashlib_new E) (files st) f ''sha256'' 1048576 of
        Inl e \<Rightarrow> (st, Some e)
      | Inr hl \<Rightarrow> writerow E temp_record [f, fst hl, string_of_nat (snd hl)] st)"

text \<open>
  The two nested \<open>with\<close> blocks, for \<open>info = info_dir[0]\<close>: \<open>RECORD\<close> is opened
  for reading (\<open>IOError\<close> without it), \<open>RECORD.pip\<close> is created empty, and the three
  loops write to it. An exception leaves what has been written so far.
\<close>

definition write_record :: "env \<Rightarrow> string \<Rightarrow> install_state \<Rightarrow> install_state \<times> error option" where
  "write_record E info st =
     (let record = path_join info ''RECORD'';
          temp_record = path_join info ''RECORD.pip''
      in case files st record of
           None \<Rightarrow> (st, Some IOError)
         | Some record_in \<Rightarrow>
             then_do
            (then_do
               (foreach (csv_reader E record_in) (rewrite_row E temp_record)
                  (st\<lparr>files := (files st)(temp_record \<mapsto> [])\<rparr>))
               (\<lambda>st1. foreach (generated st1) (rewrite_generated E temp_record) st1))
               (\<lambda>st2. foreach (installed st2)
                        (\<lambda>kv. writerow E temp_record [snd kv, [], []]) st2))"

text \<open>
  \<open>shutil.move(temp_record, record)\<close>: the file \<open>RECORD.pip\<close> takes the place of
  \<open>RECORD\<close>.
\<close>

definition move_record :: "string \<Rightarrow> install_state \<Rightarrow> install_state \<times> error option" where
  "move_record info st =
     (let record = path_join info ''RECORD'';
          temp_record = path_join info ''RECORD.pip''
      in (st\<lparr>files := (files st)(record := files st temp_record, temp_record := None)\<rparr>, None))"

text \<open>The statements from \<open>record = ...\<close> to \<open>shutil.move(temp_record, record)\<close>.\<close>

definition rewrite_record :: "env \<Rightarrow> string \<Rightarrow> install_state \<Rightarrow> install_state \<times> error option" where
  "rewrite_record E info st = then_do (write_record E info st) (move_record info)"

subsection \<open>\<open>move_wheel_files\<close>\<close>

text \<open>
  \<open>move_wheel_files(name, req, wheeldir, user, home, root)\<close>. \<open>nm\<close> is \<open>name\<close>,
  \<open>project_name\<close> is \<open>req.project_name\<close>, \<open>top_entries\<close> are the entries of
  \<open>wheeldir\<close>, and \<open>fl\<close> are the files outside it when the installation starts.
  A missing key of \<open>scheme\<close> raises \<open>KeyError\<close>.
\<close>

definition move_wheel_files ::
  "env \<Rightarrow> string \<Rightarrow> string \<Rightarrow> string \<Rightarrow> (string \<times> node) list \<Rightarrow> fs \<Rightarrow>
   install_state \<times> error option" where
  "move_wheel_files E nm project_name wheeldir top_entries fl =
     (let st0 = \<lparr>files = fl, installed = [], changed = {}, generated = [],
                 info_dir = [], data_dirs = []\<rparr>
      in case root_is_purelib nm top_entries of
           Inl e \<Rightarrow> (st0, Some e)
         | Inr purelib \<Rightarrow>
      (case scheme E (if purelib then ''purelib'' else ''platlib'') of
           None \<Rightarrow> (st0, Some KeyError)
         | Some lib_dir \<Rightarrow>
      (let source = rstrip [os_sep] wheeldir @ [os_sep]
       in then_do
            (clobber E project_name wheeldir lib_dir source (Dir top_entries) lib_dir True
               None None st0)
            (\<lambda>st1.
               if info_dir st1 = [] then (st1, Some AssertionError)
               else
                 (let ep_file = path_join (hd (info_dir st1)) ''entry_points.txt'';
                      ce = get_entrypoints E (files st1) ep_file;
                      console = fst ce;
                      gui = snd ce
                  in then_do
                       (foreach (data_dirs st1)
                          (data_dir E project_name wheeldir lib_dir console gui top_entries) st1)
                       (\<lambda>st2.
                          case scheme E ''scripts'' of
                            None \<Rightarrow> (st2, Some KeyError)
                          | Some scripts_dir \<Rightarrow>
                              rewrite_record E (hd (info_dir st2))
                                (generate_scripts E scripts_dir console gui st2)))))))"

subsection \<open>An environment for examples\<close>

text \<open>
  Modelled from the spec: \<open>pip.util.make_path_relative\<close> is not among the sources at
  hand. The spec has the manifest paths relative (the archive-relative source path, the
  final relative install path), so for two absolute normalised paths the model drops
  the leading directories that \<open>path\<close> and \<open>rel_to\<close> share, climbs out of the
  remaining ones of \<open>rel_to\<close> with \<open>..\<close>, and descends to \<open>path\<close>.
\<close>

definition join_sep :: "char \<Rightarrow> string list \<Rightarrow> string" where
  "join_sep sep parts =
     (case parts of [] \<Rightarrow> [] | p # ps \<Rightarrow> p @ concat (map (\<lambda>q. sep # q) ps))"

fun strip_common :: "string list \<Rightarrow> string list \<Rightarrow> string list \<times> string list" where
  "strip_common (a # as) (b # bs) =
     (if a = b then strip_common as bs else (a # as, b # bs))"
| "strip_common as bs = (as, bs)"

definition relative_to :: "string \<Rightarrow> string \<Rightarrow> string" where
  "relative_to path rel_to =
     (let path_filename = snd (path_split path);
          dir = fst (path_split path);
          path_parts = split_char os_sep (rstrip [os_sep] (lstrip [os_sep] dir));
          rel_to_parts = split_char os_sep (rstrip [os_sep] (lstrip [os_sep] rel_to));
          rest = strip_common path_parts rel_to_parts;
          full_parts = replicate (length (snd rest)) ''..'' @ fst rest @ [path_filename]
      in if full_parts = [[]] then ''./'' else join_sep os_sep full_parts)"

text \<open>
  Modelled from the spec: the manifest is a file of rows \<open>path,hash,length\<close>, one on
  each line; the fields of the examples need no quoting.
\<close>

definition simple_csv_reader :: "string \<Rightarrow> string list list" where
  "simple_csv_reader content =
     map (\<lambda>line. split_char (CHR '','') (rstrip [CHR 0x0D, CHR 0x0A] line)) (file_lines content)"

definition simple_csv_writerow :: "string list \<Rightarrow> error + string" where
  "simple_csv_writerow row = Inr (join_sep (CHR '','') row @ [CHR 0x0D, CHR 0x0A])"

text \<open>
  Modelled from the spec: each entry-point specification \<open>name = module:callable\<close>
  becomes one launcher, the file \<open>name\<close> in the scripts directory; its content here is
  the specification.
\<close>

definition simple_maker_make :: "string \<Rightarrow> string \<Rightarrow> bool \<Rightarrow> (string \<times> string) list" where
  "simple_maker_make target_dir spec gui =
     [(path_join target_dir (takeWhile (\<lambda>c. c \<noteq> CHR '' '') spec), spec)]"

text \<open>
  An environment with these, Python 2.7 at \<open>/usr/bin/python\<close>, no entry-point
  sections and the given \<open>hashlib.new\<close>.
\<close>

definition example_env :: "(string \<Rightarrow> (string \<Rightarrow> string) option) \<Rightarrow> env" where
  "example_env H =
     \<lparr> scheme = [''purelib'' \<mapsto> ''/env/lib'', ''platlib'' \<mapsto> ''/env/lib'',
                 ''scripts'' \<mapsto> ''/env/bin''],
       make_path_relative = relative_to,
       sys_executable = ''/usr/bin/python'',
       os_linesep = [CHR 0x0A],
       sys_version = ''2.7.5 (default, Aug  1 2013)'',
       hashlib_new = H,
       csv_reader = simple_csv_reader,
       csv_writerow = simple_csv_writerow,
       maker_make = simple_maker_make,
       config_items = (\<lambda>content section. None) \<rparr>"

section \<open>Properties of the resolution strategies\<close>

text \<open>
  Claim C10. \<open>strategy_factory nm\<close> is the earliest-compatible strategy exactly when
  \<open>nm\<close> is \<open>earliest-compatible\<close>, and the default strategy for every other name.
  The earliest-compatible strategy leaves the candidates as they are and prefers index 0;
  the default strategy returns the candidates reversed and prefers the index
  \<open>len(candidates)\<close>.
\<close>

theorem strategy_factory_spec:
  "(strategy_factory nm = EarliestCompatible \<longleftrightarrow> nm = ''earliest-compatible'')
   \<and> (nm \<noteq> ''earliest-compatible'' \<longrightarrow> strategy_factory nm = DefaultStrategy)
   \<and> sort_candidates EarliestCompatible cs = cs
   \<and> get_preferred_candidate EarliestCompatible res cs info = 0
   \<and> sort_candidates DefaultStrategy cs = rev cs
   \<and> get_preferred_candidate DefaultStrategy res cs info = int (length cs)"
  by (simp add: strategy_factory_def strategy_table_def)

theorem strategy_factory_spec_witness:
  "strategy_factory ''earliest-compatible'' = EarliestCompatible
   \<and> ''latest'' \<noteq> ''earliest-compatible''
   \<and> strategy_factory ''latest'' = DefaultStrategy
   \<and> sort_candidates (strategy_factory ''earliest-compatible'') [1, 2, 3 :: nat] = [1, 2, 3]
   \<and> sort_candidates (strategy_factory ''latest'') [1, 2, 3 :: nat] = [3, 2, 1]
   \<and> get_preferred_candidate (strategy_factory ''latest'') (None :: nat option)
        [1, 2, 3 :: nat] ([] :: (nat \<times> nat) list) = 3"
  using strategy_factory_spec [of "''earliest-compatible''" "[1, 2, 3 :: nat]" None "[]"]
    strategy_factory_spec [of "''latest''" "[1, 2, 3 :: nat]" None "[] :: (nat \<times> nat) list"]
  by simp

section \<open>Properties of the archive identity\<close>

text \<open>
  Claim C2, at the metadata-directory name form. \<open>wheel_file_re\<close> matches
  \<open>demo-1.0.dist-info\<close> through its \<open>\.dist-info\<close> alternative, with the name
  \<open>demo\<close> and the version \<open>1.0\<close>; the groups \<open>pyver\<close>, \<open>abi\<close> and \<open>plat\<close>
  take no part in that match, and \<open>Wheel.__init__\<close> raises \<open>AttributeError\<close> when it
  splits the first of them. The same exception ends the parsing of a wheel file name
  whose version has a single character: \<open>\d.+?\<close> needs two, the \<open>1\<close> is taken
  for a build tag and the group \<open>ver\<close> stays unset. A wheel file name with a longer
  version is parsed, and its underscores become hyphens.
\<close>

theorem Wheel_init_dist_info:
  "(\<exists>g. re_match wheel_file_re ''demo-1.0.dist-info'' = Some g
        \<and> g ''name'' = Some ''demo'' \<and> g ''ver'' = Some ''1.0''
        \<and> g ''pyver'' = None \<and> g ''abi'' = None \<and> g ''plat'' = None)
   \<and> Wheel_init ''demo-1.0.dist-info'' = Inl AttributeError
   \<and> Wheel_init ''demo-1-py3-none-any.whl'' = Inl AttributeError
   \<and> Wheel_init ''my_demo-1.0-py2.py3-none-any.whl'' =
       Inr \<lparr> filename = ''my_demo-1.0-py2.py3-none-any.whl'',
             name = ''my-demo'', version = ''1.0'',
             pyversions = [''py2'', ''py3''], abis = [''none''], plats = [''any''],
             file_tags = {(''py2'', ''none'', ''any''), (''py3'', ''none'', ''any'')} \<rparr>"
  by (simp add: Wheel_init_def re_match_def wheel_file_re_def lit_def replace_char_def
      insert_commute)

lemma list_index_less: "x \<in> set xs \<Longrightarrow> list_index xs x < length xs"
  unfolding list_index_def by (induction xs) auto

lemma nth_list_index: "x \<in> set xs \<Longrightarrow> xs ! list_index xs x = x"
  unfolding list_index_def by (induction xs) auto

lemma list_index_le: "i < length xs \<Longrightarrow> xs ! i = x \<Longrightarrow> list_index xs x \<le> i"
  unfolding list_index_def
proof (induction xs arbitrary: i)
  case Nil
  then show ?case by simp
next
  case (Cons y ys)
  then show ?case by (cases i) auto
qed

text \<open>
  The smallest of the first positions of the archive's tags is the first position of
  the list that holds one of them.
\<close>

lemma Min_list_index:
  assumes ne: "F \<inter> set tags \<noteq> {}"
  shows "Min (list_index tags ` {c \<in> F. c \<in> set tags})
         = (LEAST i. i < length tags \<and> tags ! i \<in> F)"
proof -
  let ?P = "\<lambda>i. i < length tags \<and> tags ! i \<in> F"
  let ?I = "list_index tags ` {c \<in> F. c \<in> set tags}"
  have fin: "finite ?I" by simp
  from ne obtain c where c: "c \<in> F" "c \<in> set tags" by blast
  then have "?P (list_index tags c)"
    by (simp add: list_index_less nth_list_index)
  then have P: "?P (Least ?P)" by (rule LeastI)
  have in_I: "Least ?P \<in> ?I"
  proof -
    let ?d = "tags ! Least ?P"
    have d: "?d \<in> F" "?d \<in> set tags" using P by simp_all
    have "list_index tags ?d \<le> Least ?P" using P by (simp add: list_index_le)
    moreover have "Least ?P \<le> list_index tags ?d"
      using d by (intro Least_le) (simp add: list_index_less nth_list_index)
    ultimately have "Least ?P = list_index tags ?d" by simp
    with d show ?thesis by blast
  qed
  have "\<And>y. y \<in> ?I \<Longrightarrow> Least ?P \<le> y"
    by (auto intro!: Least_le simp: list_index_less nth_list_index)
  with fin in_I show ?thesis by (intro Min_eqI)
qed

text \<open>
  Claim C4. With \<open>tags\<close> the list the call uses (its argument, or the module's list
  when the argument is \<open>None\<close>): \<open>supported\<close> is true iff the archive's tag triples
  and the list have an element in common; \<open>support_index_min\<close> is \<open>None\<close> exactly
  when they have none, and otherwise the least index of the list that holds one of the
  archive's triples.
\<close>

theorem supported_spec:
  fixes w :: wheel and tags_arg :: "tag list option" and supported_tags :: "tag list"
  defines "tags \<equiv> (case tags_arg of None \<Rightarrow> supported_tags | Some t \<Rightarrow> t)"
  shows "supported supported_tags w tags_arg = (file_tags w \<inter> set tags \<noteq> {})
   \<and> (support_index_min supported_tags w tags_arg = None
        \<longleftrightarrow> file_tags w \<inter> set tags = {})
   \<and> support_index_min supported_tags w tags_arg =
       (if file_tags w \<inter> set tags = {} then None
        else Some (LEAST i. i < length tags \<and> tags ! i \<in> file_tags w))"
proof -
  have "{c \<in> file_tags w. c \<in> set tags} = {} \<longleftrightarrow> file_tags w \<inter> set tags = {}"
    by blast
  then show ?thesis
    unfolding tags_def
    by (auto simp: supported_def support_index_min_def Min_list_index Let_def)
qed

theorem supported_spec_witness:
  "supported [] \<lparr> filename = ''demo-1.0-py2.py3-none-any.whl'', name = ''demo'',
        version = ''1.0'', pyversions = [''py2'', ''py3''], abis = [''none''],
        plats = [''any''],
        file_tags = {(''py2'', ''none'', ''any''), (''py3'', ''none'', ''any'')} \<rparr>
      (Some [(''py3'', ''abi3'', ''linux''), (''py3'', ''none'', ''any'')])
   \<and> support_index_min [] \<lparr> filename = ''demo-1.0-py2.py3-none-any.whl'', name = ''demo'',
        version = ''1.0'', pyversions = [''py2'', ''py3''], abis = [''none''],
        plats = [''any''],
        file_tags = {(''py2'', ''none'', ''any''), (''py3'', ''none'', ''any'')} \<rparr>
      (Some [(''py3'', ''abi3'', ''linux''), (''py3'', ''none'', ''any'')])
     = Some 1"
proof -
  let ?tags = "[(''py3'', ''abi3'', ''linux''), (''py3'', ''none'', ''any'')]"
  let ?F = "{(''py2'', ''none'', ''any''), (''py3'', ''none'', ''any'')} :: tag set"
  have "(LEAST i. i < length ?tags \<and> ?tags ! i \<in> ?F) = 1"
  proof (rule Least_equality)
    show "1 < length ?tags \<and> ?tags ! 1 \<in> ?F" by simp
  next
    fix x assume "x < length ?tags \<and> ?tags ! x \<in> ?F"
    then show "1 \<le> x" by (cases x) auto
  qed
  then show ?thesis
    using supported_spec [of "[]" "\<lparr> filename = ''demo-1.0-py2.py3-none-any.whl'',
        name = ''demo'', version = ''1.0'', pyversions = [''py2'', ''py3''],
        abis = [''none''], plats = [''any''], file_tags = ?F \<rparr>" "Some ?tags"]
    by simp
qed

section \<open>Properties of the uninstallation paths\<close>

lemma set_unique_loop: "set (unique_loop seen xs) = set xs - seen"
  by (induction xs arbitrary: seen) auto

lemma distinct_unique_loop: "distinct (unique_loop seen xs)"
  by (induction xs arbitrary: seen) (auto simp: set_unique_loop)

lemma list_index_Cons:
  "list_index (x # xs) y = (if y = x then 0 else Suc (list_index xs y))"
  by (simp add: list_index_def)

text \<open>The items that \<open>unique\<close> lets through come in the order of their first positions.\<close>

lemma sorted_unique_loop:
  "sorted_wrt (\<lambda>a b. list_index xs a < list_index xs b) (unique_loop seen xs)"
proof (induction xs arbitrary: seen)
  case Nil
  then show ?case by simp
next
  case (Cons x xs)
  have tail: "sorted_wrt (\<lambda>a b. list_index (x # xs) a < list_index (x # xs) b)
                (unique_loop S xs)" if "x \<in> S" for S
  proof (rule sorted_wrt_mono_rel [OF _ Cons.IH [of S]])
    fix a b
    assume "a \<in> set (unique_loop S xs)" "b \<in> set (unique_loop S xs)"
      and "list_index xs a < list_index xs b"
    with that show "list_index (x # xs) a < list_index (x # xs) b"
      by (auto simp: set_unique_loop list_index_Cons)
  qed
  show ?case
  proof (cases "x \<in> seen")
    case True
    then show ?thesis using tail [of seen] by simp
  next
    case False
    have "\<forall>y \<in> set (unique_loop (insert x seen) xs).
            list_index (x # xs) x < list_index (x # xs) y"
      by (auto simp: set_unique_loop list_index_Cons)
    with False show ?thesis using tail [of "insert x seen"] by simp
  qed
qed

lemma uninstallation_paths_fn_rows:
  "[] \<notin> set rows \<Longrightarrow>
   uninstallation_paths_fn location rows =
     (concat (map (\<lambda>row. let p = path_join location (hd row)
                          in if endswith p ''.py'' then [p, pyc_path p] else [p]) rows),
      None)"
  by (induction rows) (auto simp: Let_def split: list.splits)

subsection \<open>The compiled file is a sibling of the source file\<close>

lemma takeWhile_rev_append_no_slash:
  "CHR ''/'' \<notin> set t \<Longrightarrow>
   takeWhile (\<lambda>c. c \<noteq> CHR ''/'') (rev t @ CHR ''/'' # xs) = rev t"
  by (induction t rule: rev_induct) auto

lemma takeWhile_rev_no_slash:
  "CHR ''/'' \<notin> set t \<Longrightarrow> takeWhile (\<lambda>c. c \<noteq> CHR ''/'') (rev t) = rev t"
  by (induction t rule: rev_induct) auto

lemma path_split_decomp:
  fixes p :: string
  defines "t \<equiv> rev (takeWhile (\<lambda>c. c \<noteq> CHR ''/'') (rev p))"
    and "h \<equiv> rev (dropWhile (\<lambda>c. c \<noteq> CHR ''/'') (rev p))"
  shows "path_split p =
     (if h \<noteq> [] \<and> h \<noteq> replicate (length h) (CHR ''/'') then rstrip ''/'' h else h, t)"
proof -
  have "rev p = rev t @ rev h" by (simp add: t_def h_def)
  then have p: "p = h @ t" by (metis rev_append rev_rev_ident)
  have "length p = length h + length t" using arg_cong [OF p, of length] by simp
  then have len: "length p - length (takeWhile (\<lambda>c. c \<noteq> CHR ''/'') (rev p)) = length h"
    by (simp add: t_def)
  show ?thesis
    unfolding path_split_def Let_def len using p by simp
qed

lemma rstrip_slash_shape: "rstrip ''/'' h = [] \<or> last (rstrip ''/'' h) \<noteq> CHR ''/''"
proof -
  let ?d = "dropWhile (\<lambda>c. c \<in> set ''/'') (rev h)"
  have "?d = [] \<or> hd ?d \<noteq> CHR ''/''"
    using hd_dropWhile [of "\<lambda>c. c \<in> set ''/''" "rev h"] by auto
  then show ?thesis
    by (auto simp: rstrip_def last_rev)
qed

text \<open>
  A head returned by \<open>os.path.split\<close> is empty, or made of separators, or does not
  end with a separator.
\<close>

lemma head_shape_path_split:
  fixes p :: string
  defines "dn \<equiv> fst (path_split p)"
  shows "dn = [] \<or> dn = replicate (length dn) (CHR ''/'') \<or> last dn \<noteq> CHR ''/''"
  unfolding dn_def using rstrip_slash_shape
  by (auto simp: path_split_decomp)

lemma rstrip_append_slash:
  "dn \<noteq> [] \<Longrightarrow> last dn \<noteq> CHR ''/'' \<Longrightarrow> rstrip ''/'' (dn @ ''/'') = dn"
  by (cases dn rule: rev_cases) (auto simp: rstrip_def)

text \<open>Joining such a head with a file name and splitting again gives both back.\<close>

lemma path_split_join:
  assumes shape: "dn = [] \<or> dn = replicate (length dn) (CHR ''/'') \<or> last dn \<noteq> CHR ''/''"
    and t: "CHR ''/'' \<notin> set t"
  shows "path_split (path_join dn t) = (dn, t)"
proof -
  have nostart: "\<not> startswith t ''/''"
    using t by (cases t) (auto simp: startswith_def)
  consider (empty) "dn = []"
    | (slashes) "dn \<noteq> []" "dn = replicate (length dn) (CHR ''/'')"
    | (proper) "dn \<noteq> []" "dn \<noteq> replicate (length dn) (CHR ''/'')" "last dn \<noteq> CHR ''/''"
    using shape by blast
  then show ?thesis
  proof cases
    case empty
    then show ?thesis
      using t nostart by (auto simp: path_join_def path_split_decomp takeWhile_rev_no_slash)
  next
    case slashes
    then obtain n where dn: "dn = replicate (Suc n) (CHR ''/'')"
      by (metis length_0_conv not0_implies_Suc)
    have e: "endswith dn ''/''"
      unfolding dn endswith_def by (simp flip: replicate_append_same)
    have "rev dn = CHR ''/'' # replicate n (CHR ''/'')"
      by (simp add: dn replicate_append_same)
    then have "takeWhile (\<lambda>c. c \<noteq> CHR ''/'') (rev t @ rev dn) = rev t"
      and "dropWhile (\<lambda>c. c \<noteq> CHR ''/'') (rev t @ rev dn) = rev dn"
      using t by (simp_all add: takeWhile_rev_append_no_slash dropWhile_append)
    then show ?thesis
      using nostart e slashes by (simp add: path_join_def path_split_decomp)
  next
    case proper
    have e: "\<not> endswith dn ''/''"
      using proper by (cases dn rule: rev_cases) (auto simp: endswith_def)
    have "takeWhile (\<lambda>c. c \<noteq> CHR ''/'') (rev t @ CHR ''/'' # rev dn) = rev t"
      and "dropWhile (\<lambda>c. c \<noteq> CHR ''/'') (rev t @ CHR ''/'' # rev dn) = CHR ''/'' # rev dn"
      using t by (simp_all add: takeWhile_rev_append_no_slash dropWhile_append)
    moreover have "dn @ ''/'' \<noteq> replicate (Suc (length dn)) (CHR ''/'')"
      using proper(2) by (simp flip: replicate_append_same)
    ultimately show ?thesis
      using nostart e proper rstrip_append_slash [of dn]
      by (simp add: path_join_def path_split_decomp)
  qed
qed

lemma path_split_tail_no_slash: "CHR ''/'' \<notin> set (snd (path_split p))"
  using set_takeWhileD [of "CHR ''/''" "\<lambda>c. c \<noteq> CHR ''/''" "rev p"]
  by (auto simp: path_split_decomp)

lemma path_split_pyc_path:
  "path_split (pyc_path p) =
     (fst (path_split p), take (length (snd (path_split p)) - 3) (snd (path_split p)) @ ''.pyc'')"
proof -
  obtain dn fn where s: "path_split p = (dn, fn)" by (cases "path_split p")
  have "dn = [] \<or> dn = replicate (length dn) (CHR ''/'') \<or> last dn \<noteq> CHR ''/''"
    using head_shape_path_split [of p] s by simp
  moreover have "CHR ''/'' \<notin> set (take (length fn - 3) fn @ ''.pyc'')"
    using path_split_tail_no_slash [of p] s by (auto dest: in_set_takeD)
  ultimately show ?thesis
    by (simp add: pyc_path_def s path_split_join)
qed

lemma path_split_py_tail:
  assumes "endswith p ''.py''"
  shows "\<exists>base. snd (path_split p) = base @ ''.py''"
proof -
  from assms have "p = take (length p - 3) p @ ''.py''"
    unfolding endswith_def by (metis append_take_drop_id length_Cons list.size(3) numeral_3_eq_3)
  then obtain q where p: "p = q @ ''.py''" ..
  have "takeWhile (\<lambda>c. c \<noteq> CHR ''/'') (rev p)
        = ''yp.'' @ takeWhile (\<lambda>c. c \<noteq> CHR ''/'') (rev q)"
    by (simp add: p)
  then show ?thesis
    by (simp add: path_split_decomp)
qed

text \<open>
  Claim C7. For a manifest whose rows all have a first field, the enumeration ends
  without an exception, and with \<open>expanded\<close> the sequence of every manifest path joined
  to the install root, each path ending in \<open>.py\<close> followed by its \<open>.pyc\<close> path: the
  paths yielded are those of \<open>expanded\<close>, each exactly once, in the order of their first
  occurrences in \<open>expanded\<close>. The \<open>.pyc\<close> path of a path ending in \<open>.py\<close> has the same
  directory and the same base name.
\<close>

theorem uninstallation_paths_spec:
  fixes location :: string and rows :: "string list list" and p :: string
  defines "expanded \<equiv>
     concat (map (\<lambda>row. let path = path_join location (hd row)
                         in if endswith path ''.py'' then [path, pyc_path path] else [path]) rows)"
  assumes rows: "[] \<notin> set rows"
  shows "(\<exists>ys. uninstallation_paths location rows = (ys, None)
            \<and> set ys = set expanded \<and> distinct ys
            \<and> sorted_wrt (\<lambda>a b. list_index expanded a < list_index expanded b) ys)
    \<and> (endswith p ''.py'' \<longrightarrow>
         (\<exists>dn base. path_split p = (dn, base @ ''.py'')
                  \<and> path_split (pyc_path p) = (dn, base @ ''.pyc'')))"
proof (intro conjI impI)
  have "uninstallation_paths location rows = (unique_loop {} expanded, None)"
    using rows
    by (simp add: uninstallation_paths_def unique_def uninstallation_paths_fn_rows expanded_def)
  then show "\<exists>ys. uninstallation_paths location rows = (ys, None)
            \<and> set ys = set expanded \<and> distinct ys
            \<and> sorted_wrt (\<lambda>a b. list_index expanded a < list_index expanded b) ys"
    by (simp add: set_unique_loop distinct_unique_loop sorted_unique_loop)
next
  assume "endswith p ''.py''"
  then obtain base where b: "snd (path_split p) = base @ ''.py''"
    using path_split_py_tail by blast
  then have "path_split p = (fst (path_split p), base @ ''.py'')"
    by (metis prod.collapse)
  moreover have "path_split (pyc_path p) = (fst (path_split p), base @ ''.pyc'')"
    by (simp add: path_split_pyc_path b)
  ultimately show "\<exists>dn base. path_split p = (dn, base @ ''.py'')
                  \<and> path_split (pyc_path p) = (dn, base @ ''.pyc'')"
    by blast
qed

theorem uninstallation_paths_spec_witness:
  "[] \<notin> set [[''pkg/mod.py'', ''sha256=abc'', ''10''], [''pkg/mod.py'', [], []]]
   \<and> endswith ''/env/lib/pkg/mod.py'' ''.py''
   \<and> uninstallation_paths ''/env/lib''
        [[''pkg/mod.py'', ''sha256=abc'', ''10''], [''pkg/mod.py'', [], []]]
      = ([''/env/lib/pkg/mod.py'', ''/env/lib/pkg/mod.pyc''], None)
   \<and> path_split ''/env/lib/pkg/mod.py'' = (''/env/lib/pkg'', ''mod.py'')
   \<and> path_split (pyc_path ''/env/lib/pkg/mod.py'') = (''/env/lib/pkg'', ''mod.pyc'')"
proof -
  let ?rows = "[[''pkg/mod.py'', ''sha256=abc'', ''10''], [''pkg/mod.py'', [], []]]"
  have h: "[] \<notin> set ?rows" by simp
  have e: "endswith ''/env/lib/pkg/mod.py'' ''.py''" by (simp add: endswith_def)
  have s: "path_split ''/env/lib/pkg/mod.py'' = (''/env/lib/pkg'', ''mod.py'')"
    by (simp add: path_split_def rstrip_def)
  have j: "path_join ''/env/lib'' ''pkg/mod.py'' = ''/env/lib/pkg/mod.py''"
    by (simp add: path_join_def startswith_def endswith_def)
  have c: "pyc_path ''/env/lib/pkg/mod.py'' = ''/env/lib/pkg/mod.pyc''"
    by (simp add: pyc_path_def s path_join_def startswith_def endswith_def)
  have u: "uninstallation_paths ''/env/lib'' ?rows
           = ([''/env/lib/pkg/mod.py'', ''/env/lib/pkg/mod.pyc''], None)"
    by (simp add: uninstallation_paths_def unique_def j e c Let_def)
  from uninstallation_paths_spec [OF h, of "''/env/lib''" "''/env/lib/pkg/mod.py''"] e s
  have "path_split (pyc_path ''/env/lib/pkg/mod.py'') = (''/env/lib/pkg'', ''mod.pyc'')"
    by auto
  with h e u s show ?thesis by simp
qed

section \<open>Properties of the build loop\<close>





section \<open>Properties of the content hasher\<close>

text \<open>With a block size other than 0 the loop feeds the whole file, and counts it.\<close>

lemma rehash_loop_all:
  "blocksize \<noteq> 0 \<Longrightarrow> rehash_loop blocksize rest (len, h) = (len + length rest, h @ rest)"
proof (induction blocksize rest "(len, h)" arbitrary: len h rule: rehash_loop.induct)
  case (1 blocksize rest len h)
  show ?case
  proof (cases "file_read blocksize rest = []")
    case True
    with "1.prems" have "rest = []" by (auto simp: file_read_def split: if_splits)
    with True show ?thesis by (simp add: Let_def rehash_loop.simps [of blocksize "[]"])
  next
    case False
    have "file_read blocksize rest @ drop (length (file_read blocksize rest)) rest = rest"
      by (cases "nat blocksize \<le> length rest") (auto simp: file_read_def min_def)
    moreover have "length (file_read blocksize rest)
                   + length (drop (length (file_read blocksize rest)) rest) = length rest"
      by (auto simp: file_read_def)
    ultimately show ?thesis
      using False "1.hyps" [OF refl False "1.prems"]
      by (simp add: Let_def rehash_loop.simps [of blocksize rest])
  qed
qed

lemma rehash_result:
  "blocksize \<noteq> 0 \<Longrightarrow>
   rehash H fl path algo blocksize =
     (case H algo of
        None \<Rightarrow> Inl ValueError
      | Some digest_of \<Rightarrow>
     (case fl path of
        None \<Rightarrow> Inl IOError
      | Some content \<Rightarrow>
          Inr (''sha256='' @ rstrip ''='' (urlsafe_b64encode (digest_of content)),
               length content)))"
  by (simp add: rehash_def rehash_loop_all split: option.splits)

text \<open>The encoded digest has no padding left.\<close>

lemma rstrip_no_trailing: "rstrip ''='' s = [] \<or> last (rstrip ''='' s) \<noteq> CHR ''=''"
proof -
  let ?d = "dropWhile (\<lambda>c. c \<in> set ''='') (rev s)"
  have "?d = [] \<or> hd ?d \<noteq> CHR ''=''"
    using hd_dropWhile [of "\<lambda>c. c \<in> set ''=''" "rev s"] by auto
  then show ?thesis
    by (auto simp: rstrip_def last_rev)
qed

text \<open>
  Claim C8, at the algorithm argument \<open>md5\<close> and the default block size. The digest
  that \<open>rehash\<close> encodes is the one of the algorithm asked for, over the whole file,
  and the length is the length of the file; but the tag in front of it is the constant
  \<open>sha256=\<close>, not the name of that algorithm.
\<close>

theorem rehash_md5_tag:
  "rehash H fl path ''md5'' 1048576 =
     (case H ''md5'' of
        None \<Rightarrow> Inl ValueError
      | Some md5 \<Rightarrow>
     (case fl path of
        None \<Rightarrow> Inl IOError
      | Some content \<Rightarrow>
          Inr (''sha256='' @ rstrip ''='' (urlsafe_b64encode (md5 content)),
               length content)))
   \<and> \<not> startswith (''sha256='' @ rstrip ''='' (urlsafe_b64encode digest)) ''md5=''"
  by (simp add: rehash_result startswith_def)

section \<open>Properties of the manifest rewrite\<close>








subsection \<open>What the temporary file holds when the loops are through\<close>














section \<open>Properties of the launcher generation\<close>











section \<open>Properties of an installation\<close>

text \<open>
  Claim C9, at a wheel with one metadata directory at the top level and a directory
  of a matching name further down, \<open>demo/demo-0.9.dist-info\<close>. Exactly one top-level
  entry ends in \<open>.dist-info\<close> and starts with the package's name, and it is recorded
  as \<open>info_dir\<close>; but \<open>clobber\<close> applies the same test to the subdirectories of
  every directory it walks, so the nested one makes the assertion
  \<open>Multiple .dist-info directories\<close> fail and the installation ends with
  \<open>AssertionError\<close>.
\<close>

theorem move_wheel_files_nested_dist_info:
  "length (filter (\<lambda>ne. endswith (fst ne) ''.dist-info''
                        \<and> startswith (lower (fst ne))
                             (lower (replace_char (CHR ''-'') (CHR ''_'') ''demo'')))
       [(''demo'', Dir [(''demo-0.9.dist-info'', Dir [])]),
        (''demo-1.0.dist-info'', Dir [(''WHEEL'', File ''Root-Is-Purelib: true'')])]) = 1
   \<and> info_dir (fst (move_wheel_files (example_env (\<lambda>a. None)) ''demo'' ''demo'' ''/tmp/w''
       [(''demo'', Dir [(''demo-0.9.dist-info'', Dir [])]),
        (''demo-1.0.dist-info'', Dir [(''WHEEL'', File ''Root-Is-Purelib: true'')])]
       Map.empty)) = [''/env/lib/demo-1.0.dist-info'']
   \<and> snd (move_wheel_files (example_env (\<lambda>a. None)) ''demo'' ''demo'' ''/tmp/w''
       [(''demo'', Dir [(''demo-0.9.dist-info'', Dir [])]),
        (''demo-1.0.dist-info'', Dir [(''WHEEL'', File ''Root-Is-Purelib: true'')])]
       Map.empty) = Some AssertionError"
  by code_simp

text \<open>
  What \<open>record_installed\<close> stores for a file the fixer has modified, and what the
  rewrite of a row looks up: the set \<open>changed\<close> receives the destination path as
  \<open>clobber\<close> built it, the dictionary \<open>installed\<close> the path relative to the library
  directory; a row whose new path is not in \<open>changed\<close> is written with the fields the
  archive gave it.
\<close>

lemma record_installed_modified:
  "changed (record_installed E wheeldir lib_dir srcfile destfile True st)
     = insert destfile (changed st)
   \<and> map_of (installed (record_installed E wheeldir lib_dir srcfile destfile True st))
       (normpath E srcfile wheeldir) = Some (normpath E destfile lib_dir)"
proof -
  have "map_of (dict_set d k v) k = Some v" for d :: "(string \<times> string) list" and k v
    by (induction d) auto
  then show ?thesis by (simp add: record_installed_def Let_def)
qed

lemma rewrite_row_not_changed:
  assumes "map_of (installed st) r0 = Some newpath" and "newpath \<notin> changed st"
  shows "rewrite_row E temp_record (r0 # cols) st
         = writerow E temp_record (newpath # cols)
             (st\<lparr>installed := dict_del (installed st) r0\<rparr>)"
  using assms by (simp add: rewrite_row_def Let_def)

text \<open>
  Claim C1, at a wheel whose data directory holds the script \<open>run\<close> with the first
  line \<open>#!python\<close>, listed in the archive's \<open>RECORD\<close> with the hash
  \<open>sha256=bbb\<close> and the length 22 of its 22 bytes. The installation ends without an
  exception, although the environment's \<open>hashlib.new\<close> knows no algorithm: \<open>rehash\<close>
  is never called. The fixer has rewritten the script, which now has 31 bytes, and its
  destination \<open>/env/bin/run\<close> is the element of \<open>changed\<close>; the row of the rewritten
  \<open>RECORD\<close> has the path \<open>../bin/run\<close>, relative to the library directory, which
  is not in \<open>changed\<close>, and still carries the hash and the length of the archive.
\<close>

theorem move_wheel_files_changed_script_row:
  "snd (move_wheel_files (example_env (\<lambda>a. None)) ''demo'' ''demo'' ''/tmp/w''
       [(''demo-1.0.dist-info'', Dir [
           (''WHEEL'', File ''Root-Is-Purelib: true''),
           (''RECORD'', File (''demo-1.0.data/scripts/run,sha256=bbb,22'' @ [CHR 0x0A]
                              @ ''demo-1.0.dist-info/WHEEL,sha256=ccc,21'' @ [CHR 0x0A]
                              @ ''demo-1.0.dist-info/RECORD,,'' @ [CHR 0x0A]))]),
        (''demo-1.0.data'', Dir [(''scripts'', Dir [
           (''run'', File (''#!python'' @ [CHR 0x0A] @ ''import demo'' @ [CHR 0x0A, CHR 0x0A]))])])]
       Map.empty) = None
   \<and> changed (fst (move_wheel_files (example_env (\<lambda>a. None)) ''demo'' ''demo'' ''/tmp/w''
       [(''demo-1.0.dist-info'', Dir [
           (''WHEEL'', File ''Root-Is-Purelib: true''),
           (''RECORD'', File (''demo-1.0.data/scripts/run,sha256=bbb,22'' @ [CHR 0x0A]
                              @ ''demo-1.0.dist-info/WHEEL,sha256=ccc,21'' @ [CHR 0x0A]
                              @ ''demo-1.0.dist-info/RECORD,,'' @ [CHR 0x0A]))]),
        (''demo-1.0.data'', Dir [(''scripts'', Dir [
           (''run'', File (''#!python'' @ [CHR 0x0A] @ ''import demo'' @ [CHR 0x0A, CHR 0x0A]))])])]
       Map.empty)) = {''/env/bin/run''}
   \<and> files (fst (move_wheel_files (example_env (\<lambda>a. None)) ''demo'' ''demo'' ''/tmp/w''
       [(''demo-1.0.dist-info'', Dir [
           (''WHEEL'', File ''Root-Is-Purelib: true''),
           (''RECORD'', File (''demo-1.0.data/scripts/run,sha256=bbb,22'' @ [CHR 0x0A]
                              @ ''demo-1.0.dist-info/WHEEL,sha256=ccc,21'' @ [CHR 0x0A]
                              @ ''demo-1.0.dist-info/RECORD,,'' @ [CHR 0x0A]))]),
        (''demo-1.0.data'', Dir [(''scripts'', Dir [
           (''run'', File (''#!python'' @ [CHR 0x0A] @ ''import demo'' @ [CHR 0x0A, CHR 0x0A]))])])]
       Map.empty)) ''/env/bin/run''
      = Some (''#!/usr/bin/python'' @ [CHR 0x0A] @ ''import demo'' @ [CHR 0x0A, CHR 0x0A])
   \<and> length (''#!python'' @ [CHR 0x0A] @ ''import demo'' @ [CHR 0x0A, CHR 0x0A]) = 22
   \<and> length (''#!/usr/bin/python'' @ [CHR 0x0A] @ ''import demo'' @ [CHR 0x0A, CHR 0x0A]) = 31
   \<and> files (fst (move_wheel_files (example_env (\<lambda>a. None)) ''demo'' ''demo'' ''/tmp/w''
       [(''demo-1.0.dist-info'', Dir [
           (''WHEEL'', File ''Root-Is-Purelib: true''),
           (''RECORD'', File (''demo-1.0.data/scripts/run,sha256=bbb,22'' @ [CHR 0x0A]
                              @ ''demo-1.0.dist-info/WHEEL,sha256=ccc,21'' @ [CHR 0x0A]
                              @ ''demo-1.0.dist-info/RECORD,,'' @ [CHR 0x0A]))]),
        (''demo-1.0.data'', Dir [(''scripts'', Dir [
           (''run'', File (''#!python'' @ [CHR 0x0A] @ ''import demo'' @ [CHR 0x0A, CHR 0x0A]))])])]
       Map.empty)) ''/env/lib/demo-1.0.dist-info/RECORD''
      = Some (''../bin/run,sha256=bbb,22'' @ [CHR 0x0D, CHR 0x0A]
              @ ''demo-1.0.dist-info/WHEEL,sha256=ccc,21'' @ [CHR 0x0D, CHR 0x0A]
              @ ''demo-1.0.dist-info/RECORD,,'' @ [CHR 0x0D, CHR 0x0A])"
  by code_simp

end
